theory Spec2Isabelle
  imports Complex_Main "HOL-Library.AList"
begin

section \<open>JavaScript values used by the control panel\<close>

text \<open>
  A JavaScript number is a binary double.  A finite one is modelled as the real it stands
  for, \<open>NaN\<close> as \<open>None\<close>.  Reading a text, adding and subtracting give the double nearest
  to the exact result, a tie going to the even significand; comparing, \<open>Math.min\<close> and
  \<open>Math.max\<close> are exact.  Arithmetic on \<open>NaN\<close> gives \<open>NaN\<close>, every comparison with \<open>NaN\<close>
  is false.  The infinities (magnitudes from \<open>2\<^sup>1\<^sup>0\<^sup>2\<^sup>4\<close> on) and the negative zero are left
  out.
\<close>

type_synonym jsnum = "real option"

text \<open>The integer nearest to \<open>q\<close>, the even one of two.\<close>

definition roundTiesToEven :: "real \<Rightarrow> int" where
  "roundTiesToEven q =
     (let f = \<lfloor>q\<rfloor>; d = q - real_of_int f
      in if d < 1 / 2 then f else if 1 / 2 < d then f + 1 else if even f then f else f + 1)"

text \<open>The exponent \<open>e\<close> with \<open>2\<^sup>e \<le> y < 2\<^sup>e\<^sup>+\<^sup>1\<close>, found by halving or doubling \<open>y\<close>; the
  count of steps left is more than any double needs.\<close>

fun binade :: "nat \<Rightarrow> real \<Rightarrow> int" where
  "binade fuel y =
     (if fuel = 0 then 0
      else if 2 \<le> y then binade (fuel - 1) (y / 2) + 1
      else if y < 1 then binade (fuel - 1) (2 * y) - 1
      else 0)"

text \<open>The distance between neighbouring doubles around \<open>x\<close>: 52 binary places below its
  exponent, the exponent not less than \<open>-1022\<close>.\<close>

definition ulp :: "real \<Rightarrow> real" where
  "ulp x = (let e = max (binade 1100 \<bar>x\<bar>) (- 1022) - 52
            in if 0 \<le> e then 2 ^ nat e else 1 / 2 ^ nat (- e))"

definition double_of :: "real \<Rightarrow> real" where
  "double_of x = (if x = 0 then 0 else real_of_int (roundTiesToEven (x / ulp x)) * ulp x)"

definition js_add :: "jsnum \<Rightarrow> jsnum \<Rightarrow> jsnum" where
  "js_add x y =
     (case x of None \<Rightarrow> None | Some a \<Rightarrow> (case y of None \<Rightarrow> None | Some b \<Rightarrow> Some (double_of (a + b))))"

definition js_sub :: "jsnum \<Rightarrow> jsnum \<Rightarrow> jsnum" where
  "js_sub x y =
     (case x of None \<Rightarrow> None | Some a \<Rightarrow> (case y of None \<Rightarrow> None | Some b \<Rightarrow> Some (double_of (a - b))))"

definition js_lt :: "jsnum \<Rightarrow> jsnum \<Rightarrow> bool" where
  "js_lt x y = (case x of None \<Rightarrow> False | Some a \<Rightarrow> (case y of None \<Rightarrow> False | Some b \<Rightarrow> a < b))"

definition js_gt :: "jsnum \<Rightarrow> jsnum \<Rightarrow> bool" where
  "js_gt x y = (case x of None \<Rightarrow> False | Some a \<Rightarrow> (case y of None \<Rightarrow> False | Some b \<Rightarrow> a > b))"

definition js_ge :: "jsnum \<Rightarrow> jsnum \<Rightarrow> bool" where
  "js_ge x y = (case x of None \<Rightarrow> False | Some a \<Rightarrow> (case y of None \<Rightarrow> False | Some b \<Rightarrow> a \<ge> b))"

definition Math_min :: "jsnum \<Rightarrow> jsnum \<Rightarrow> jsnum" where
  "Math_min x y = (case x of None \<Rightarrow> None | Some a \<Rightarrow> (case y of None \<Rightarrow> None | Some b \<Rightarrow> Some (min a b)))"

definition Math_max :: "jsnum \<Rightarrow> jsnum \<Rightarrow> jsnum" where
  "Math_max x y = (case x of None \<Rightarrow> None | Some a \<Rightarrow> (case y of None \<Rightarrow> None | Some b \<Rightarrow> Some (max a b)))"

subsection \<open>Printing with one fraction digit, and reading a number back\<close>

definition digit_char :: "int \<Rightarrow> char" where
  "digit_char d = ''0123456789'' ! nat d"

definition is_digit :: "char \<Rightarrow> bool" where
  "is_digit c = (c \<in> set ''0123456789'')"

definition digit_val :: "char \<Rightarrow> int" where
  "digit_val c = of_char c - 48"

function digits :: "int \<Rightarrow> string" where
  "digits n = (if n < 10 then [digit_char n] else digits (n div 10) @ [digit_char (n mod 10)])"
  by pat_completeness auto
termination
  by (relation "measure nat") auto

text \<open>
  \<open>x.toFixed(1)\<close>: the sign first, then the integer \<open>n\<close> nearest to ten times the
  magnitude of the double as it is (of two nearest ones the larger), printed with a point
  before its last digit.  From a magnitude of \<open>10\<^sup>2\<^sup>1\<close> on the built-in prints exponent notation instead;
  that branch is not modelled, and the theorems below that read a printed text back do so
  for numbers below that bound only.
\<close>

definition toFixed1 :: "jsnum \<Rightarrow> string" where
  "toFixed1 v =
     (case v of
        None \<Rightarrow> ''NaN''
      | Some x \<Rightarrow>
          (let s = (if x < 0 then ''-'' else '''');
               y = \<bar>x\<bar>;
               n = \<lfloor>10 * y + 1 / 2\<rfloor>
           in s @ digits (n div 10) @ ''.'' @ digits (n mod 10)))"

definition int_of_digits :: "string \<Rightarrow> int" where
  "int_of_digits cs = foldl (\<lambda>n c. 10 * n + digit_val c) 0 cs"

definition unsigned :: "string \<Rightarrow> jsnum" where
  "unsigned str =
     (let ip = takeWhile (\<lambda>c. c \<noteq> CHR ''.'') str;
          fp = drop 1 (dropWhile (\<lambda>c. c \<noteq> CHR ''.'') str)
      in if list_all is_digit ip \<and> list_all is_digit fp \<and> \<not> (ip = [] \<and> fp = [])
         then Some (double_of (real_of_int (int_of_digits ip)
                                 + real_of_int (int_of_digits fp) / 10 ^ length fp))
         else None)"

text \<open>
  \<open>Number(text)\<close> for the texts this page handles: the empty text is zero, an optional
  sign, digits with an optional point, read as the double nearest to the decimal written.
  Every other text reads as \<open>NaN\<close> here
  (JavaScript also reads exponents, radix prefixes, \<open>Infinity\<close> and surrounding white
  space, none of which \<open>toFixed(1)\<close> writes below \<open>10\<^sup>2\<^sup>1\<close>).
\<close>

definition Number :: "string \<Rightarrow> jsnum" where
  "Number str =
     (case str of
        [] \<Rightarrow> Some 0
      | c # cs \<Rightarrow>
          if c = CHR ''-'' then map_option uminus (unsigned cs)
          else if c = CHR ''+'' then unsigned cs
          else unsigned str)"

text \<open>The number the text \<open>x.toFixed(1)\<close> denotes: the double nearest to the tenth
  nearest to \<open>x\<close>, with the sign of \<open>x\<close>.\<close>

definition one_decimal :: "real \<Rightarrow> real" where
  "one_decimal x =
     (let t = double_of (real_of_int \<lfloor>10 * \<bar>x\<bar> + 1 / 2\<rfloor> / 10)
      in if x < 0 then - t else t)"

subsection \<open>Objects and JSON\<close>

datatype jsval = JSNumber jsnum | JSBoolean bool

type_synonym object = "(string \<times> jsval) list"

definition truthy :: "jsval option \<Rightarrow> bool" where
  "truthy v =
     (case v of
        None \<Rightarrow> False
      | Some (JSBoolean b) \<Rightarrow> b
      | Some (JSNumber None) \<Rightarrow> False
      | Some (JSNumber (Some x)) \<Rightarrow> x \<noteq> 0)"

datatype json = JNull | JNumber real | JBool bool

definition to_json :: "jsval \<Rightarrow> json" where
  "to_json v =
     (case v of
        JSNumber None \<Rightarrow> JNull
      | JSNumber (Some x) \<Rightarrow> JNumber x
      | JSBoolean b \<Rightarrow> JBool b)"

text \<open>The text \<open>JSON.stringify\<close> returns is kept as its members in order and the
  indentation asked for; the characters themselves are not modelled.\<close>

datatype json_text = JSON_text "(string \<times> json) list" nat

definition JSON_stringify :: "object \<Rightarrow> nat \<Rightarrow> json_text" where
  "JSON_stringify obj indent = JSON_text (map (\<lambda>(k, v). (k, to_json v)) obj) indent"

section \<open>The range selector (app.js)\<close>

text \<open>
  The page: the two sliders' values, the two labels' texts, the \<open>data-active\<close>
  attribute of the two toggles (\<open>None\<close> when the attribute is missing), the class list
  of the preview button, and whether \<open>window.Telegram?.WebApp\<close> gave a host object.
\<close>

record page =
  startRange_value :: string
  endRange_value :: string
  startValue_textContent :: string
  endValue_textContent :: string
  muteToggle_active :: "string option"
  audioToggle_active :: "string option"
  previewButton_classList :: "string list"
  tg :: bool

datatype effect = Expand | SendData json_text | Close | Alert string json_text

text \<open>Lines 18 to 29 of \<open>clampRanges\<close>: the four corrections, in the order of the code.\<close>

definition normalize_bounds :: "jsnum \<Rightarrow> jsnum \<Rightarrow> jsnum \<times> jsnum" where
  "normalize_bounds start0 end0 =
     (let start = start0;
          end' = end0;
          end' = (if js_lt (js_sub end' start) (Some (1 / 2))
                  then Math_min (Some 60) (js_add start (Some (1 / 2))) else end');
          end' = (if js_gt end' (Some 60) then Some 60 else end');
          start = (if js_lt start (Some 0) then Some 0 else start);
          start = (if js_ge start end'
                   then Math_max (Some 0) (js_sub end' (Some (1 / 2))) else start)
      in (start, end'))"

definition clampRanges :: "page \<Rightarrow> page" where
  "clampRanges p =
     (let (start, end') = normalize_bounds (Number (startRange_value p)) (Number (endRange_value p))
      in p\<lparr>startRange_value := toFixed1 start,
            endRange_value := toFixed1 end',
            startValue_textContent := toFixed1 start @ ''s'',
            endValue_textContent := toFixed1 end' @ ''s''\<rparr>)"

definition toString_bool :: "bool \<Rightarrow> string" where
  "toString_bool b = (if b then ''true'' else ''false'')"

definition toggleButton :: "string option \<Rightarrow> string option" where
  "toggleButton dataset_active =
     (let active = (dataset_active = Some ''true'')
      in Some (toString_bool (\<not> active)))"

definition classList_toggle :: "string \<Rightarrow> string list \<Rightarrow> string list" where
  "classList_toggle token cl = (if token \<in> set cl then removeAll token cl else cl @ [token])"

text \<open>Lines 52 to 61 of the submit handler: the payload, with the override of \<open>mute\<close>.\<close>

definition payload :: "page \<Rightarrow> object" where
  "payload p =
     (let payload = [(''start'', JSNumber (Number (startRange_value p))),
                     (''end'', JSNumber (Number (endRange_value p))),
                     (''mute'', JSBoolean (muteToggle_active p = Some ''true'')),
                     (''audioOnly'', JSBoolean (audioToggle_active p = Some ''true''))]
      in if truthy (map_of payload ''audioOnly'')
         then AList.update ''mute'' (JSBoolean False) payload
         else payload)"

definition submit :: "page \<Rightarrow> effect list" where
  "submit p =
     (if tg p then [SendData (JSON_stringify (payload p) 0), Close]
      else [Alert ''Payload: '' (JSON_stringify (payload p) 2)])"

datatype event =
    Input_startRange string
  | Input_endRange string
  | Click_muteToggle
  | Click_audioToggle
  | Click_previewButton
  | Click_submitButton

text \<open>One event, run to completion: the new page and what the handler sent out.  An
  input event carries the text the browser has just put into the slider.\<close>

definition dispatch :: "event \<Rightarrow> page \<Rightarrow> page \<times> effect list" where
  "dispatch ev p =
     (case ev of
        Input_startRange v \<Rightarrow> (clampRanges (p\<lparr>startRange_value := v\<rparr>), [])
      | Input_endRange v \<Rightarrow> (clampRanges (p\<lparr>endRange_value := v\<rparr>), [])
      | Click_muteToggle \<Rightarrow> (p\<lparr>muteToggle_active := toggleButton (muteToggle_active p)\<rparr>, [])
      | Click_audioToggle \<Rightarrow> (p\<lparr>audioToggle_active := toggleButton (audioToggle_active p)\<rparr>, [])
      | Click_previewButton \<Rightarrow>
          (p\<lparr>previewButton_classList := classList_toggle ''active'' (previewButton_classList p)\<rparr>, [])
      | Click_submitButton \<Rightarrow> (p, submit p))"

text \<open>Loading the script: lines 10 to 13, and the call on the last line.\<close>

definition load :: "page \<Rightarrow> page \<times> effect list" where
  "load p = (clampRanges p, if tg p then [Expand] else [])"


subsection \<open>What the spec asks of a range\<close>

text \<open>The invariant of the spec's data model: \<open>0 \<le> start < end \<le> 60\<close> and a width of
  at least one half.\<close>

definition valid_range :: "real \<Rightarrow> real \<Rightarrow> bool" where
  "valid_range s e = (0 \<le> s \<and> s < e \<and> e \<le> 60 \<and> 1 / 2 \<le> e - s)"

text \<open>A page with the given slider texts, both toggles off, no host.\<close>

definition example_page :: "string \<Rightarrow> string \<Rightarrow> page" where
  "example_page s e =
     \<lparr>startRange_value = s, endRange_value = e,
      startValue_textContent = [], endValue_textContent = [],
      muteToggle_active = Some ''false'', audioToggle_active = Some ''false'',
      previewButton_classList = [], tg = False\<rparr>"

section \<open>The launcher script\<close>

text \<open>
  The shell script that follows app.js in the source.  A run is the list of what the
  script did, in order.  The environment gives what the script cannot decide: whether
  \<open>PYTHONPATH\<close> is set (the script runs under \<open>set -u\<close> and expands it on its fifth
  line), whether \<open>command -v uvicorn\<close> succeeds, the bot token, the process id each
  background job gets, whether a process is still there when \<open>kill\<close> signals it, the status
  \<open>wait\<close> reports for it, and what ends the run and when.  The directory changes of the
  first lines are taken to succeed.

  A run that has started its jobs ends in one of these ways: the final \<open>wait\<close> returns
  because every child has exited, or a signal reaches the script.  On \<open>SIGHUP\<close>, \<open>SIGINT\<close>
  and \<open>SIGTERM\<close> bash runs the \<open>EXIT\<close> trap, if one is set by then, and exits; \<open>SIGKILL\<close>
  ends it on the spot.  The signal arrives either while the script sits in its final
  \<open>wait\<close>, or earlier, after some steps of the startup, when \<open>trap cleanup EXIT\<close> has not
  been executed yet.  One trigger per run: a second signal during the cleanup is not
  modelled.
\<close>

type_synonym pid = nat

datatype job = Api | Worker | Bot

datatype message =
    Unbound_variable
  | Uvicorn_not_found
  | Api_started pid
  | Worker_started pid
  | Bot_started pid
  | Bot_skipped
  | Stopping

datatype trigger = Children_exited | SIGHUP | SIGINT | SIGTERM | SIGKILL

datatype moment = Before_trap nat | In_final_wait

datatype action =
    Stdout message
  | Stderr message
  | Spawn job pid
  | Kill pid bool
  | Wait pid
  | Trap_EXIT
  | Wait_all
  | Exit nat

record env =
  PYTHONPATH :: "string option"
  uvicorn_found :: bool
  TELEGRAM_BOT_TOKEN :: "string option"
  new_pid :: "job \<Rightarrow> pid"
  alive :: "pid \<Rightarrow> bool"
  wait_status :: "pid \<Rightarrow> nat"
  shutdown_by :: trigger
  shutdown_at :: moment

record vars =
  API_PID :: pid
  WORKER_PID :: pid
  BOT_PID :: "pid option"

text \<open>\<open>${VAR:-word}\<close> and \<open>[[ -n text ]]\<close>.\<close>

definition param_default :: "string option \<Rightarrow> string \<Rightarrow> string" where
  "param_default var word = (case var of None \<Rightarrow> word | Some v \<Rightarrow> (if v = [] then word else v))"

definition test_n :: "string \<Rightarrow> bool" where
  "test_n text = (text \<noteq> [])"

text \<open>What a command did, and its exit status.\<close>

type_synonym result = "action list \<times> nat"

text \<open>\<open>kill\<close> signals every process it is given and succeeds when at least one signal was
  delivered; \<open>wait\<close> waits for every process it is given and reports the last one's
  status.\<close>

definition kill_builtin :: "env \<Rightarrow> pid list \<Rightarrow> result" where
  "kill_builtin e pids = (map (\<lambda>p. Kill p (alive e p)) pids, if list_ex (alive e) pids then 0 else 1)"

definition wait_builtin :: "env \<Rightarrow> pid list \<Rightarrow> result" where
  "wait_builtin e pids = (map Wait pids, if pids = [] then 0 else wait_status e (last pids))"

text \<open>\<open>command || true\<close>, and two commands in a row under \<open>set -e\<close>.\<close>

definition or_true :: "result \<Rightarrow> result" where
  "or_true r = (if snd r = 0 then r else (fst r, 0))"

definition and_then :: "result \<Rightarrow> result \<Rightarrow> result" where
  "and_then r1 r2 = (if snd r1 = 0 then (fst r1 @ fst r2, snd r2) else r1)"

definition cleanup :: "env \<Rightarrow> vars \<Rightarrow> result" where
  "cleanup e v =
     (let pids = [API_PID v, WORKER_PID v] @ (case BOT_PID v of None \<Rightarrow> [] | Some b \<Rightarrow> [b])
      in and_then ([Stdout Stopping], 0)
           (and_then (or_true (kill_builtin e pids)) (or_true (wait_builtin e pids))))"

datatype startup_state = Failed nat | Running vars

definition startup :: "env \<Rightarrow> action list \<times> startup_state" where
  "startup e =
     (case PYTHONPATH e of
        None \<Rightarrow> ([Stderr Unbound_variable], Failed 1)
      | Some _ \<Rightarrow>
          if \<not> uvicorn_found e then ([Stderr Uvicorn_not_found], Failed 1)
          else
            (let api = new_pid e Api;
                 worker = new_pid e Worker;
                 t = [Spawn Api api, Stdout (Api_started api),
                      Spawn Worker worker, Stdout (Worker_started worker)]
             in if test_n (param_default (TELEGRAM_BOT_TOKEN e) [])
                then (let bot = new_pid e Bot
                      in (t @ [Spawn Bot bot, Stdout (Bot_started bot)],
                          Running \<lparr>API_PID = api, WORKER_PID = worker, BOT_PID = Some bot\<rparr>))
                else (t @ [Stdout Bot_skipped],
                      Running \<lparr>API_PID = api, WORKER_PID = worker, BOT_PID = None\<rparr>)))"

definition signal_number :: "trigger \<Rightarrow> nat" where
  "signal_number s =
     (case s of Children_exited \<Rightarrow> 0 | SIGHUP \<Rightarrow> 1 | SIGINT \<Rightarrow> 2 | SIGKILL \<Rightarrow> 9 | SIGTERM \<Rightarrow> 15)"

text \<open>The status the script ends with: that of the final \<open>wait\<close>, or 128 plus the
  signal's number.\<close>

definition exit_status :: "trigger \<Rightarrow> nat" where
  "exit_status s = (case s of Children_exited \<Rightarrow> 0 | _ \<Rightarrow> 128 + signal_number s)"

definition launcher :: "env \<Rightarrow> action list" where
  "launcher e =
     (case startup e of
        (t, Failed status) \<Rightarrow> t @ [Exit status]
      | (t, Running v) \<Rightarrow>
          (case shutdown_by e of
             Children_exited \<Rightarrow>
               t @ [Trap_EXIT, Wait_all] @ fst (cleanup e v) @ [Exit (exit_status (shutdown_by e))]
           | SIGKILL \<Rightarrow>
               (case shutdown_at e of
                  Before_trap k \<Rightarrow> take k t @ [Exit (exit_status (shutdown_by e))]
                | In_final_wait \<Rightarrow> t @ [Trap_EXIT, Wait_all, Exit (exit_status (shutdown_by e))])
           | _ \<Rightarrow>
               (case shutdown_at e of
                  Before_trap k \<Rightarrow> take k t @ [Exit (exit_status (shutdown_by e))]
                | In_final_wait \<Rightarrow>
                    t @ [Trap_EXIT, Wait_all] @ fst (cleanup e v)
                      @ [Exit (exit_status (shutdown_by e))])))"

text \<open>Reading a run: the jobs started, and the process ids started, signalled and
  waited for, each in the order of the run.\<close>

definition started :: "action list \<Rightarrow> job list" where
  "started t = List.map_filter (\<lambda>a. case a of Spawn j p \<Rightarrow> Some j | _ \<Rightarrow> None) t"

definition spawned :: "action list \<Rightarrow> pid list" where
  "spawned t = List.map_filter (\<lambda>a. case a of Spawn j p \<Rightarrow> Some p | _ \<Rightarrow> None) t"




definition example_env :: "string option \<Rightarrow> env" where
  "example_env token =
     \<lparr>PYTHONPATH = Some [], uvicorn_found = True, TELEGRAM_BOT_TOKEN = token,
      new_pid = (\<lambda>j. case j of Api \<Rightarrow> 101 | Worker \<Rightarrow> 102 | Bot \<Rightarrow> 103),
      alive = (\<lambda>p. p \<noteq> 101), wait_status = (\<lambda>p. 143),
      shutdown_by = SIGTERM, shutdown_at = In_final_wait\<rparr>"

section \<open>Facts about the number model\<close>

lemma digit_cases:
  assumes "0 \<le> d" "d < 10"
  shows "d = 0 \<or> d = 1 \<or> d = 2 \<or> d = 3 \<or> d = 4 \<or> d = 5 \<or> d = 6 \<or> d = 7 \<or> d = 8 \<or> d = (9::int)"
  using assms by arith

lemma digit_val_digit_char: "0 \<le> d \<Longrightarrow> d < 10 \<Longrightarrow> digit_val (digit_char d) = d"
  using digit_cases[of d] by (auto simp: digit_val_def digit_char_def)

lemma is_digit_digit_char: "0 \<le> d \<Longrightarrow> d < 10 \<Longrightarrow> is_digit (digit_char d)"
  using digit_cases[of d] by (auto simp: is_digit_def digit_char_def)

lemma is_digit_not_mark:
  "is_digit c \<Longrightarrow> c \<noteq> CHR ''.'' \<and> c \<noteq> CHR ''-'' \<and> c \<noteq> CHR ''+''"
  unfolding is_digit_def by auto

declare digits.simps [simp del]

lemma digits_small: "n < 10 \<Longrightarrow> digits n = [digit_char n]"
  by (subst digits.simps) simp

lemma digits_large: "\<not> n < 10 \<Longrightarrow> digits n = digits (n div 10) @ [digit_char (n mod 10)]"
  by (subst digits.simps) simp

lemma digits_all: "0 \<le> n \<Longrightarrow> list_all is_digit (digits n)"
proof (induction n rule: digits.induct)
  case (1 n)
  show ?case
  proof (cases "n < 10")
    case True
    then show ?thesis using "1.prems" by (simp add: digits_small is_digit_digit_char)
  next
    case False
    then have "0 \<le> n div 10" by simp
    with 1 False have "list_all is_digit (digits (n div 10))" by simp
    moreover have "is_digit (digit_char (n mod 10))" by (simp add: is_digit_digit_char)
    ultimately show ?thesis using False by (simp add: digits_large)
  qed
qed

lemma digits_nonempty: "digits n \<noteq> []"
  by (subst digits.simps) simp

lemma int_of_digits_snoc: "int_of_digits (cs @ [c]) = 10 * int_of_digits cs + digit_val c"
  by (simp add: int_of_digits_def)

lemma int_of_digits_digits: "0 \<le> n \<Longrightarrow> int_of_digits (digits n) = n"
proof (induction n rule: digits.induct)
  case (1 n)
  show ?case
  proof (cases "n < 10")
    case True
    then show ?thesis using "1.prems"
      by (simp add: digits_small int_of_digits_def digit_val_digit_char)
  next
    case False
    then have "0 \<le> n div 10" by simp
    with 1 False have "int_of_digits (digits (n div 10)) = n div 10" by simp
    then have "int_of_digits (digits (n div 10) @ [digit_char (n mod 10)]) = n"
      by (simp add: int_of_digits_snoc digit_val_digit_char)
    with False show ?thesis by (simp add: digits_large)
  qed
qed

lemma takeWhile_digits:
  assumes "list_all is_digit ds"
  shows "takeWhile (\<lambda>c. c \<noteq> CHR ''.'') (ds @ CHR ''.'' # fs) = ds"
    and "dropWhile (\<lambda>c. c \<noteq> CHR ''.'') (ds @ CHR ''.'' # fs) = CHR ''.'' # fs"
proof -
  have *: "\<forall>c\<in>set ds. c \<noteq> CHR ''.''"
    using assms is_digit_not_mark by (auto simp: list_all_iff)
  show "takeWhile (\<lambda>c. c \<noteq> CHR ''.'') (ds @ CHR ''.'' # fs) = ds"
    using * by simp
  show "dropWhile (\<lambda>c. c \<noteq> CHR ''.'') (ds @ CHR ''.'' # fs) = CHR ''.'' # fs"
    using * by simp
qed

lemma unsigned_print:
  assumes "0 \<le> q" "0 \<le> r" "r < 10"
  shows "unsigned (digits q @ ''.'' @ digits r)
           = Some (double_of (real_of_int q + real_of_int r / 10))"
proof -
  have r: "digits r = [digit_char r]" using assms by (simp add: digits_small)
  have dr: "list_all is_digit (digits r)" using assms by (simp add: digits_all)
  have dq: "list_all is_digit (digits q)" using assms by (simp add: digits_all)
  have "unsigned (digits q @ CHR ''.'' # digits r)
      = Some (double_of (real_of_int (int_of_digits (digits q))
          + real_of_int (int_of_digits (digits r)) / 10 ^ length (digits r)))"
    unfolding unsigned_def Let_def takeWhile_digits[OF dq]
    by (simp add: dq dr digits_nonempty)
  moreover have "int_of_digits (digits r) = r" "int_of_digits (digits q) = q"
    using assms by (simp_all add: int_of_digits_digits)
  moreover have "length (digits r) = 1"
    by (simp add: r)
  ultimately show ?thesis
    by simp
qed

lemma hd_digits_not_sign:
  assumes "0 \<le> q"
  shows "\<exists>c cs. digits q @ rest = c # cs \<and> c \<noteq> CHR ''-'' \<and> c \<noteq> CHR ''+''"
proof -
  obtain c cs where dq: "digits q = c # cs"
    using digits_nonempty[of q] by (cases "digits q") auto
  have "is_digit c" using digits_all[OF assms] dq by simp
  then show ?thesis using dq is_digit_not_mark by auto
qed

lemma Number_unsigned:
  assumes "0 \<le> q"
  shows "Number (digits q @ rest) = unsigned (digits q @ rest)"
proof -
  obtain c cs where "digits q @ rest = c # cs" "c \<noteq> CHR ''-''" "c \<noteq> CHR ''+''"
    using hd_digits_not_sign[OF assms] by blast
  then show ?thesis by (simp add: Number_def)
qed

lemma Number_toFixed1: "Number (toFixed1 (Some x)) = Some (one_decimal x)"
proof -
  define n where "n = \<lfloor>10 * \<bar>x\<bar> + 1 / 2\<rfloor>"
  have n0: "0 \<le> n" unfolding n_def by simp
  then have q0: "0 \<le> n div 10" and r0: "0 \<le> n mod 10" and r10: "n mod 10 < 10"
    by simp_all
  have u: "unsigned (digits (n div 10) @ ''.'' @ digits (n mod 10))
      = Some (double_of (real_of_int n / 10))"
  proof -
    have "real_of_int (n div 10) + real_of_int (n mod 10) / 10 = real_of_int n / 10"
    proof -
      have "real_of_int n = real_of_int (10 * (n div 10) + n mod 10)" by simp
      also have "\<dots> = 10 * real_of_int (n div 10) + real_of_int (n mod 10)"
        by (simp only: of_int_add of_int_mult of_int_numeral)
      finally show ?thesis by simp
    qed
    then have "double_of (real_of_int (n div 10) + real_of_int (n mod 10) / 10)
        = double_of (real_of_int n / 10)"
      by (rule arg_cong)
    moreover have "unsigned (digits (n div 10) @ ''.'' @ digits (n mod 10))
        = Some (double_of (real_of_int (n div 10) + real_of_int (n mod 10) / 10))"
      using q0 r0 r10 by (rule unsigned_print)
    ultimately show ?thesis by (simp only:)
  qed
  show ?thesis
  proof (cases "x < 0")
    case True
    then have "toFixed1 (Some x) = CHR ''-'' # (digits (n div 10) @ ''.'' @ digits (n mod 10))"
      by (simp add: toFixed1_def n_def Let_def)
    then have "Number (toFixed1 (Some x)) = map_option uminus (Some (double_of (real_of_int n / 10)))"
      using u by (simp add: Number_def)
    then show ?thesis using True by (simp add: one_decimal_def n_def)
  next
    case False
    then have "toFixed1 (Some x) = digits (n div 10) @ (''.'' @ digits (n mod 10))"
      by (simp add: toFixed1_def n_def Let_def)
    then have "Number (toFixed1 (Some x)) = Some (double_of (real_of_int n / 10))"
      using u Number_unsigned[OF q0, of "''.'' @ digits (n mod 10)"] by simp
    then show ?thesis using False by (simp add: one_decimal_def n_def)
  qed
qed

lemma normalize_finite:
  "\<exists>s e. normalize_bounds (Some a) (Some b) = (Some s, Some e) \<and> 0 \<le> s \<and> e \<le> 60"
  by (auto simp add: normalize_bounds_def js_lt_def js_gt_def js_ge_def js_add_def js_sub_def
      Math_min_def Math_max_def Let_def)

lemma clampRanges_finite:
  assumes "Number (startRange_value p) = Some a" "Number (endRange_value p) = Some b"
    and "normalize_bounds (Some a) (Some b) = (Some s, Some e)"
  shows "clampRanges p = p\<lparr>startRange_value := toFixed1 (Some s),
            endRange_value := toFixed1 (Some e),
            startValue_textContent := toFixed1 (Some s) @ ''s'',
            endValue_textContent := toFixed1 (Some e) @ ''s''\<rparr>"
  using assms by (simp add: clampRanges_def)

lemma clampRanges_reads:
  assumes "Number (startRange_value p) = Some a" "Number (endRange_value p) = Some b"
    and "normalize_bounds (Some a) (Some b) = (Some s, Some e)"
  shows "Number (startRange_value (clampRanges p)) = Some (one_decimal s)"
    and "Number (endRange_value (clampRanges p)) = Some (one_decimal e)"
  using assms by (simp_all add: clampRanges_finite[OF assms] Number_toFixed1)

lemma payload_start: "map_of (payload p) ''start'' = Some (JSNumber (Number (startRange_value p)))"
  by (simp add: payload_def Let_def)

lemma payload_end: "map_of (payload p) ''end'' = Some (JSNumber (Number (endRange_value p)))"
  by (simp add: payload_def Let_def)

lemma clampRanges_texts:
  assumes "Number (startRange_value p) = Some a" "Number (endRange_value p) = Some b"
    and "normalize_bounds (Some a) (Some b) = (Some s, Some e)"
    and "toFixed1 (Some s) = ts" "toFixed1 (Some e) = te"
  shows "clampRanges p = p\<lparr>startRange_value := ts, endRange_value := te,
            startValue_textContent := ts @ ''s'', endValue_textContent := te @ ''s''\<rparr>"
  using assms by (simp add: clampRanges_def)

section \<open>Worked values\<close>

text \<open>
  The numbers the texts of the examples below stand for, the four steps on them and the
  texts printed from the results, each computed from the definitions.  The fraction
  written for 59.8, say, is the double nearest to 59.8.
\<close>

lemma read_59_8: "Number ''59.8'' = Some (4208050901824307 / 70368744177664)"
  by code_simp

lemma read_59_97: "Number ''59.97'' = Some (2110006794167255 / 35184372088832)"
  by code_simp

lemma read_60: "Number ''60'' = Some 60"
  by code_simp

lemma read_60_0: "Number ''60.0'' = Some 60"
  by code_simp

lemma read_61: "Number ''61'' = Some 61"
  by code_simp

lemma read_0_45: "Number ''0.45'' = Some (8106479329266893 / 18014398509481984)"
  by code_simp

lemma read_0_95: "Number ''0.95'' = Some (4278419646001971 / 4503599627370496)"
  by code_simp

lemma read_0_5: "Number ''0.5'' = Some (1 / 2)"
  by code_simp

lemma read_0_9: "Number ''0.9'' = Some (8106479329266893 / 9007199254740992)"
  by code_simp

lemma read_0_15: "Number ''0.15'' = Some (5404319552844595 / 36028797018963968)"
  by code_simp

lemma read_30: "Number ''30'' = Some 30"
  by code_simp

lemma read_10_04: "Number ''10.04'' = Some (1413004383087493 / 140737488355328)"
  by code_simp

lemma read_20_26: "Number ''20.26'' = Some (5702683028157891 / 281474976710656)"
  by code_simp

lemma steps_59_8_61: "normalize_bounds (Some (4208050901824307 / 70368744177664)) (Some 61) = (Some (4208050901824307 / 70368744177664), Some 60)"
  by code_simp

lemma steps_59_8_60: "normalize_bounds (Some (4208050901824307 / 70368744177664)) (Some 60) = (Some (4208050901824307 / 70368744177664), Some 60)"
  by code_simp

lemma steps_59_97_60: "normalize_bounds (Some (2110006794167255 / 35184372088832)) (Some 60) = (Some (2110006794167255 / 35184372088832), Some 60)"
  by code_simp

lemma steps_60_60: "normalize_bounds (Some 60) (Some 60) = (Some (119 / 2), Some 60)"
  by code_simp

lemma steps_0_45_0_95: "normalize_bounds (Some (8106479329266893 / 18014398509481984)) (Some (4278419646001971 / 4503599627370496)) = (Some (8106479329266893 / 18014398509481984), Some (4278419646001971 / 4503599627370496))"
  by code_simp

lemma steps_0_5_0_9: "normalize_bounds (Some (1 / 2)) (Some (8106479329266893 / 9007199254740992)) = (Some (1 / 2), Some 1)"
  by code_simp

lemma steps_0_15_30: "normalize_bounds (Some (5404319552844595 / 36028797018963968)) (Some 30) = (Some (5404319552844595 / 36028797018963968), Some 30)"
  by code_simp

lemma steps_10_04_20_26: "normalize_bounds (Some (1413004383087493 / 140737488355328)) (Some (5702683028157891 / 281474976710656)) = (Some (1413004383087493 / 140737488355328), Some (5702683028157891 / 281474976710656))"
  by code_simp

lemma print_59_8: "toFixed1 (Some (4208050901824307 / 70368744177664)) = ''59.8''"
  by code_simp

lemma print_59_97: "toFixed1 (Some (2110006794167255 / 35184372088832)) = ''60.0''"
  by code_simp

lemma print_59_5: "toFixed1 (Some (119 / 2)) = ''59.5''"
  by code_simp

lemma print_60: "toFixed1 (Some 60) = ''60.0''"
  by code_simp

lemma print_0_45: "toFixed1 (Some (8106479329266893 / 18014398509481984)) = ''0.5''"
  by code_simp

lemma print_0_95: "toFixed1 (Some (4278419646001971 / 4503599627370496)) = ''0.9''"
  by code_simp

lemma print_0_5: "toFixed1 (Some (1 / 2)) = ''0.5''"
  by code_simp

lemma print_1: "toFixed1 (Some 1) = ''1.0''"
  by code_simp

lemma print_0_15: "toFixed1 (Some (5404319552844595 / 36028797018963968)) = ''0.1''"
  by code_simp

lemma print_30: "toFixed1 (Some 30) = ''30.0''"
  by code_simp

lemma print_10_04: "toFixed1 (Some (1413004383087493 / 140737488355328)) = ''10.0''"
  by code_simp

lemma print_20_26: "toFixed1 (Some (5702683028157891 / 281474976710656)) = ''20.3''"
  by code_simp

lemma one_decimal_0_15: "one_decimal (5404319552844595 / 36028797018963968) = 3602879701896397 / 36028797018963968"
  by code_simp

lemma one_decimal_30: "one_decimal 30 = 30"
  by code_simp

lemma one_decimal_10_04: "one_decimal (1413004383087493 / 140737488355328) = 10"
  by code_simp

lemma one_decimal_20_26: "one_decimal (5702683028157891 / 281474976710656) = 5713942027226317 / 281474976710656"
  by code_simp

lemma clampRanges_values:
  assumes "Number (startRange_value p) = Some a" "Number (endRange_value p) = Some b"
    and "normalize_bounds (Some a) (Some b) = (Some s, Some e)"
    and "toFixed1 (Some s) = ts" "toFixed1 (Some e) = te"
  shows "startRange_value (clampRanges p) = ts" and "endRange_value (clampRanges p) = te"
  by (simp_all add: clampRanges_texts[OF assms])

lemma example_page_values:
  "startRange_value (example_page s e) = s" "endRange_value (example_page s e) = e"
  by (simp_all add: example_page_def)

text \<open>
  The binary rounding shows in the texts: 0.45 is a double a little above 0.45 and is
  printed as 0.5, 0.95 one a little below 0.95 and is printed as 0.9.  From the slider
  texts 0.45 and 0.95 the first call stores 0.5 and 0.9, the second 0.5 and 1.0.
\<close>

lemma clampRanges_0_45_0_95:
  "startRange_value (clampRanges (example_page ''0.45'' ''0.95'')) = ''0.5''
   \<and> endRange_value (clampRanges (example_page ''0.45'' ''0.95'')) = ''0.9''
   \<and> startRange_value (clampRanges (clampRanges (example_page ''0.45'' ''0.95''))) = ''0.5''
   \<and> endRange_value (clampRanges (clampRanges (example_page ''0.45'' ''0.95''))) = ''1.0''"
proof -
  have a: "Number (startRange_value (example_page ''0.45'' ''0.95'')) = Some (8106479329266893 / 18014398509481984)"
    by (simp only: example_page_values read_0_45)
  have b: "Number (endRange_value (example_page ''0.45'' ''0.95'')) = Some (4278419646001971 / 4503599627370496)"
    by (simp only: example_page_values read_0_95)
  note first = clampRanges_values[OF a b steps_0_45_0_95 print_0_45 print_0_95]
  have a2: "Number (startRange_value (clampRanges (example_page ''0.45'' ''0.95''))) = Some (1 / 2)"
    by (simp only: first read_0_5)
  have b2: "Number (endRange_value (clampRanges (example_page ''0.45'' ''0.95''))) = Some (8106479329266893 / 9007199254740992)"
    by (simp only: first read_0_9)
  note second = clampRanges_values[OF a2 b2 steps_0_5_0_9 print_0_5 print_1]
  show ?thesis
    by (simp only: first second simp_thms)
qed

section \<open>Facts about the payload and the preview button\<close>

lemma payload_mute:
  "map_of (payload p) ''mute'' =
     Some (JSBoolean (if audioToggle_active p = Some ''true'' then False
                      else muteToggle_active p = Some ''true''))"
  by (simp add: payload_def Let_def truthy_def)

lemma payload_audioOnly:
  "map_of (payload p) ''audioOnly'' = Some (JSBoolean (audioToggle_active p = Some ''true''))"
  by (simp add: payload_def Let_def truthy_def)

lemma payload_keys: "map fst (payload p) = [''start'', ''end'', ''mute'', ''audioOnly'']"
  by (simp add: payload_def Let_def truthy_def)

lemma payload_classList: "payload (p\<lparr>previewButton_classList := c\<rparr>) = payload p"
  by (simp add: payload_def)

lemma submit_classList: "submit (p\<lparr>previewButton_classList := c\<rparr>) = submit p"
  by (simp add: submit_def payload_classList)

lemma preview_clicks:
  "\<exists>c. ((\<lambda>q. fst (dispatch Click_previewButton q)) ^^ n) p = p\<lparr>previewButton_classList := c\<rparr>"
proof (induction n)
  case 0
  have "p = p\<lparr>previewButton_classList := previewButton_classList p\<rparr>" by simp
  then show ?case by (simp only: funpow_0) blast
next
  case (Suc n)
  then obtain c where "((\<lambda>q. fst (dispatch Click_previewButton q)) ^^ n) p = p\<lparr>previewButton_classList := c\<rparr>"
    by blast
  then have "((\<lambda>q. fst (dispatch Click_previewButton q)) ^^ Suc n) p
      = p\<lparr>previewButton_classList := classList_toggle ''active'' c\<rparr>"
    by (simp add: dispatch_def)
  then show ?case by blast
qed

section \<open>Facts about the launcher\<close>

lemma cleanup_run:
  "fst (cleanup e v) =
     (let pids = [API_PID v, WORKER_PID v] @ (case BOT_PID v of None \<Rightarrow> [] | Some b \<Rightarrow> [b])
      in Stdout Stopping # map (\<lambda>p. Kill p (alive e p)) pids @ map Wait pids)"
  by (simp add: cleanup_def and_then_def or_true_def kill_builtin_def wait_builtin_def Let_def)






text \<open>Past the prerequisites the startup reaches the final \<open>wait\<close>, and the bot is among
  the started jobs exactly if the token is set and not empty.\<close>

lemma startup_bot_iff_token:
  assumes "PYTHONPATH e = Some pp" and "uvicorn_found e"
  shows "\<exists>t v. startup e = (t, Running v)
           \<and> (Bot \<in> set (started t)) = (\<exists>tok. TELEGRAM_BOT_TOKEN e = Some tok \<and> tok \<noteq> [])
           \<and> (if Bot \<in> set (started t)
               then started t = [Api, Worker, Bot] \<and> BOT_PID v = Some (new_pid e Bot)
               else started t = [Api, Worker] \<and> BOT_PID v = None \<and> Stdout Bot_skipped \<in> set t)"
proof (cases "test_n (param_default (TELEGRAM_BOT_TOKEN e) [])")
  case True
  then have tok: "\<exists>tok. TELEGRAM_BOT_TOKEN e = Some tok \<and> tok \<noteq> []"
    by (cases "TELEGRAM_BOT_TOKEN e") (auto simp: param_default_def test_n_def split: if_splits)
  have s: "startup e = ([Spawn Api (new_pid e Api), Stdout (Api_started (new_pid e Api)),
                      Spawn Worker (new_pid e Worker), Stdout (Worker_started (new_pid e Worker)),
                      Spawn Bot (new_pid e Bot), Stdout (Bot_started (new_pid e Bot))],
                     Running \<lparr>API_PID = new_pid e Api, WORKER_PID = new_pid e Worker, BOT_PID = Some (new_pid e Bot)\<rparr>)"
    using assms True by (simp add: startup_def Let_def)
  show ?thesis
    using tok unfolding s by (simp add: started_def)
next
  case False
  then have tok: "\<not> (\<exists>tok. TELEGRAM_BOT_TOKEN e = Some tok \<and> tok \<noteq> [])"
    by (cases "TELEGRAM_BOT_TOKEN e") (auto simp: param_default_def test_n_def split: if_splits)
  have s: "startup e = ([Spawn Api (new_pid e Api), Stdout (Api_started (new_pid e Api)),
                      Spawn Worker (new_pid e Worker), Stdout (Worker_started (new_pid e Worker)),
                      Stdout Bot_skipped],
                     Running \<lparr>API_PID = new_pid e Api, WORKER_PID = new_pid e Worker, BOT_PID = None\<rparr>)"
    using assms False by (simp add: startup_def Let_def)
  show ?thesis
    using tok unfolding s by (simp add: started_def)
qed

section \<open>The claims about the range selector\<close>

text \<open>
  C1.  The claim asks for \<open>0 \<le> start' < end' \<le> 60\<close> and a width of at least 0.5 after every
  call.  From the slider texts 59.8 and 60 the four steps return the start unchanged
  and the end 60, a range 0.2 wide, and the sliders then hold 59.8 and 60.0: the last step
  repairs the width only when the start has reached the end.
\<close>

theorem clampRanges_loses_width_below_60:
  "Number ''59.8'' = Some (4208050901824307 / 70368744177664)
   \<and> Number ''60'' = Some 60
   \<and> normalize_bounds (Number ''59.8'') (Number ''60'') = (Number ''59.8'', Some 60)
   \<and> \<not> valid_range (4208050901824307 / 70368744177664) 60
   \<and> 60 - (4208050901824307 / 70368744177664) < (1 / 2 :: real)
   \<and> startRange_value (clampRanges (example_page ''59.8'' ''60'')) = ''59.8''
   \<and> endRange_value (clampRanges (example_page ''59.8'' ''60'')) = ''60.0''"
proof -
  have a: "Number (startRange_value (example_page ''59.8'' ''60'')) = Some (4208050901824307 / 70368744177664)"
    by (simp only: example_page_values read_59_8)
  have b: "Number (endRange_value (example_page ''59.8'' ''60'')) = Some 60"
    by (simp only: example_page_values read_60)
  note first = clampRanges_values[OF a b steps_59_8_60 print_59_8 print_60]
  have v: "\<not> valid_range (4208050901824307 / 70368744177664) 60"
    and w: "60 - (4208050901824307 / 70368744177664) < (1 / 2 :: real)"
    by (simp_all add: valid_range_def)
  show ?thesis
    using v w by (simp only: first read_59_8 read_60 steps_59_8_60 simp_thms)
qed

text \<open>
  C2.  The claim asks that a second call, which reads the texts the first call stored,
  changes nothing.  From the slider texts 59.97 and 60 the first call keeps the start
  and stores 60.0 and 60.0; the second call reads a start that has reached the end and
  stores 59.5 and 60.0.
\<close>

theorem clampRanges_second_call_moves_start:
  "startRange_value (clampRanges (example_page ''59.97'' ''60'')) = ''60.0''
   \<and> endRange_value (clampRanges (example_page ''59.97'' ''60'')) = ''60.0''
   \<and> startRange_value (clampRanges (clampRanges (example_page ''59.97'' ''60''))) = ''59.5''
   \<and> endRange_value (clampRanges (clampRanges (example_page ''59.97'' ''60''))) = ''60.0''
   \<and> clampRanges (clampRanges (example_page ''59.97'' ''60'')) \<noteq> clampRanges (example_page ''59.97'' ''60'')"
proof -
  have a: "Number (startRange_value (example_page ''59.97'' ''60'')) = Some (2110006794167255 / 35184372088832)"
    by (simp only: example_page_values read_59_97)
  have b: "Number (endRange_value (example_page ''59.97'' ''60'')) = Some 60"
    by (simp only: example_page_values read_60)
  note first = clampRanges_values[OF a b steps_59_97_60 print_59_97 print_60]
  have a2: "Number (startRange_value (clampRanges (example_page ''59.97'' ''60''))) = Some 60"
    by (simp only: first read_60_0)
  have b2: "Number (endRange_value (clampRanges (example_page ''59.97'' ''60''))) = Some 60"
    by (simp only: first read_60_0)
  note second = clampRanges_values[OF a2 b2 steps_60_60 print_59_5 print_60]
  have "startRange_value (clampRanges (clampRanges (example_page ''59.97'' ''60'')))
      \<noteq> startRange_value (clampRanges (example_page ''59.97'' ''60''))"
    unfolding first second by simp
  then have "clampRanges (clampRanges (example_page ''59.97'' ''60'')) \<noteq> clampRanges (example_page ''59.97'' ''60'')"
    by auto
  then show ?thesis
    by (simp only: first second simp_thms)
qed

text \<open>
  C3.  The spec's example \<open>normalize(59.8, 61)\<close>: the code returns the start unchanged and
  the end 60, a range 0.2 wide, and stores the texts 59.8 and 60.0; the start is not moved
  down to 59.5, because the last step only acts when the start has reached the end.
\<close>

theorem normalize_upper_clamp_keeps_start:
  "Number ''59.8'' = Some (4208050901824307 / 70368744177664)
   \<and> normalize_bounds (Number ''59.8'') (Number ''61'') = (Number ''59.8'', Some 60)
   \<and> startRange_value (clampRanges (example_page ''59.8'' ''61'')) = ''59.8''
   \<and> endRange_value (clampRanges (example_page ''59.8'' ''61'')) = ''60.0''"
proof -
  have a: "Number (startRange_value (example_page ''59.8'' ''61'')) = Some (4208050901824307 / 70368744177664)"
    by (simp only: example_page_values read_59_8)
  have b: "Number (endRange_value (example_page ''59.8'' ''61'')) = Some 61"
    by (simp only: example_page_values read_61)
  note first = clampRanges_values[OF a b steps_59_8_61 print_59_8 print_60]
  show ?thesis
    by (simp only: first read_59_8 read_61 steps_59_8_61 simp_thms)
qed

text \<open>
  C4, as the code has it.  \<open>clampRanges\<close> writes the one-decimal text of each bound into
  the slider itself; the label shows that same text with an \<open>s\<close> after it.  What the
  submit handler later reads is the number that one-decimal text denotes, not the bound
  the four steps produced.  (Stated for bounds below \<open>10\<^sup>2\<^sup>1\<close> in magnitude, where
  \<open>toFixed\<close> prints digits.)
\<close>

theorem clampRanges_stores_rounded:
  assumes "Number (startRange_value p) = Some a" and "Number (endRange_value p) = Some b"
    and "normalize_bounds (Some a) (Some b) = (Some s, Some e)"
    and "\<bar>s\<bar> < 10 ^ 21" and "\<bar>e\<bar> < 10 ^ 21"
  shows "startRange_value (clampRanges p) = toFixed1 (Some s)
         \<and> endRange_value (clampRanges p) = toFixed1 (Some e)
         \<and> startValue_textContent (clampRanges p) = startRange_value (clampRanges p) @ ''s''
         \<and> endValue_textContent (clampRanges p) = endRange_value (clampRanges p) @ ''s''
         \<and> map_of (payload (clampRanges p)) ''start'' = Some (JSNumber (Some (one_decimal s)))
         \<and> map_of (payload (clampRanges p)) ''end'' = Some (JSNumber (Some (one_decimal e)))"
proof -
  have c: "clampRanges p = p\<lparr>startRange_value := toFixed1 (Some s),
            endRange_value := toFixed1 (Some e),
            startValue_textContent := toFixed1 (Some s) @ ''s'',
            endValue_textContent := toFixed1 (Some e) @ ''s''\<rparr>"
    using assms(1-3) by (rule clampRanges_finite)
  have "map_of (payload (clampRanges p)) ''start'' = Some (JSNumber (Some (one_decimal s)))"
    unfolding payload_start using clampRanges_reads(1)[OF assms(1-3)] by simp
  moreover have "map_of (payload (clampRanges p)) ''end'' = Some (JSNumber (Some (one_decimal e)))"
    unfolding payload_end using clampRanges_reads(2)[OF assms(1-3)] by simp
  ultimately show ?thesis
    by (simp add: c)
qed

text \<open>The slider texts 0.15 and 30: the start is the double nearest to 0.15, a little
  below it; the slider then holds 0.1 and the payload carries the double nearest to
  0.1.\<close>

theorem clampRanges_stores_rounded_witness:
  "Number (startRange_value (example_page ''0.15'' ''30'')) = Some (5404319552844595 / 36028797018963968)
   \<and> Number (endRange_value (example_page ''0.15'' ''30'')) = Some 30
   \<and> normalize_bounds (Some (5404319552844595 / 36028797018963968)) (Some 30)
        = (Some (5404319552844595 / 36028797018963968), Some 30)
   \<and> \<bar>5404319552844595 / 36028797018963968 :: real\<bar> < 10 ^ 21 \<and> \<bar>30 :: real\<bar> < 10 ^ 21
   \<and> startRange_value (clampRanges (example_page ''0.15'' ''30'')) = ''0.1''
   \<and> endRange_value (clampRanges (example_page ''0.15'' ''30'')) = ''30.0''
   \<and> startValue_textContent (clampRanges (example_page ''0.15'' ''30'')) = ''0.1s''
   \<and> endValue_textContent (clampRanges (example_page ''0.15'' ''30'')) = ''30.0s''
   \<and> map_of (payload (clampRanges (example_page ''0.15'' ''30''))) ''start''
        = Some (JSNumber (Some (3602879701896397 / 36028797018963968)))
   \<and> map_of (payload (clampRanges (example_page ''0.15'' ''30''))) ''end''
        = Some (JSNumber (Some 30))"
proof -
  have a: "Number (startRange_value (example_page ''0.15'' ''30'')) = Some (5404319552844595 / 36028797018963968)"
    by (simp only: example_page_values read_0_15)
  have b: "Number (endRange_value (example_page ''0.15'' ''30'')) = Some 30"
    by (simp only: example_page_values read_30)
  have s: "\<bar>5404319552844595 / 36028797018963968 :: real\<bar> < 10 ^ 21" by simp
  have e: "\<bar>30 :: real\<bar> < 10 ^ 21" by simp
  show ?thesis
    using clampRanges_stores_rounded[OF a b steps_0_15_30 s e] a b s e
    by (simp add: steps_0_15_30 print_0_15 print_30 one_decimal_0_15 one_decimal_30)
qed

text \<open>
  C4 as stated fails: from the slider texts 10.04 and 20.26 the four steps keep both
  numbers, the sliders then hold 10.0 and 20.3, and the payload carries 10 and the double
  nearest to 20.3, neither of which is the number the steps produced.
\<close>

theorem clampRanges_stores_rounded_counterexample:
  "Number ''10.04'' = Some (1413004383087493 / 140737488355328)
   \<and> Number ''20.26'' = Some (5702683028157891 / 281474976710656)
   \<and> normalize_bounds (Number ''10.04'') (Number ''20.26'') = (Number ''10.04'', Number ''20.26'')
   \<and> startRange_value (clampRanges (example_page ''10.04'' ''20.26'')) = ''10.0''
   \<and> endRange_value (clampRanges (example_page ''10.04'' ''20.26'')) = ''20.3''
   \<and> map_of (payload (clampRanges (example_page ''10.04'' ''20.26''))) ''start''
        = Some (JSNumber (Some 10))
   \<and> map_of (payload (clampRanges (example_page ''10.04'' ''20.26''))) ''end''
        = Some (JSNumber (Some (5713942027226317 / 281474976710656)))
   \<and> Some (JSNumber (Some 10)) \<noteq> Some (JSNumber (Number ''10.04''))
   \<and> Some (JSNumber (Some (5713942027226317 / 281474976710656))) \<noteq> Some (JSNumber (Number ''20.26''))"
proof -
  have a: "Number (startRange_value (example_page ''10.04'' ''20.26'')) = Some (1413004383087493 / 140737488355328)"
    by (simp only: example_page_values read_10_04)
  have b: "Number (endRange_value (example_page ''10.04'' ''20.26'')) = Some (5702683028157891 / 281474976710656)"
    by (simp only: example_page_values read_20_26)
  note first = clampRanges_values[OF a b steps_10_04_20_26 print_10_04 print_20_26]
  note reads = clampRanges_reads[OF a b steps_10_04_20_26]
  have p1: "map_of (payload (clampRanges (example_page ''10.04'' ''20.26''))) ''start''
        = Some (JSNumber (Some 10))"
    by (simp only: payload_start reads one_decimal_10_04)
  have p2: "map_of (payload (clampRanges (example_page ''10.04'' ''20.26''))) ''end''
        = Some (JSNumber (Some (5713942027226317 / 281474976710656)))"
    by (simp only: payload_end reads one_decimal_20_26)
  show ?thesis
    unfolding p1 p2 first read_10_04 read_20_26 steps_10_04_20_26 by simp
qed

text \<open>
  C5.  The override of \<open>mute\<close> lives in the payload only.  With the audio-only toggle on,
  the payload's \<open>mute\<close> is false whatever the mute toggle says; with it off, the payload's
  \<open>mute\<close> is the mute toggle's state.  Submitting leaves the page as it was, and a click
  on one toggle leaves the other toggle's stored state alone.
\<close>

theorem submit_mute_override:
  "map_of (payload p) ''audioOnly'' = Some (JSBoolean (audioToggle_active p = Some ''true''))
   \<and> (audioToggle_active p = Some ''true'' \<longrightarrow> map_of (payload p) ''mute'' = Some (JSBoolean False))
   \<and> (audioToggle_active p \<noteq> Some ''true'' \<longrightarrow>
        map_of (payload p) ''mute'' = Some (JSBoolean (muteToggle_active p = Some ''true'')))
   \<and> fst (dispatch Click_submitButton p) = p
   \<and> muteToggle_active (fst (dispatch Click_audioToggle p)) = muteToggle_active p
   \<and> audioToggle_active (fst (dispatch Click_muteToggle p)) = audioToggle_active p"
  by (simp add: payload_mute payload_audioOnly dispatch_def)

text \<open>The spec's two examples: mute on with audio-only on, and mute on with audio-only
  off.\<close>

theorem submit_mute_override_witness:
  "audioToggle_active (example_page ''0'' ''1''\<lparr>muteToggle_active := Some ''true'', audioToggle_active := Some ''true''\<rparr>) = Some ''true''
   \<and> map_of (payload (example_page ''0'' ''1''\<lparr>muteToggle_active := Some ''true'', audioToggle_active := Some ''true''\<rparr>)) ''mute''
        = Some (JSBoolean False)
   \<and> map_of (payload (example_page ''0'' ''1''\<lparr>muteToggle_active := Some ''true'', audioToggle_active := Some ''true''\<rparr>)) ''audioOnly''
        = Some (JSBoolean True)
   \<and> audioToggle_active (example_page ''0'' ''1''\<lparr>muteToggle_active := Some ''true''\<rparr>) \<noteq> Some ''true''
   \<and> map_of (payload (example_page ''0'' ''1''\<lparr>muteToggle_active := Some ''true''\<rparr>)) ''mute''
        = Some (JSBoolean True)
   \<and> map_of (payload (example_page ''0'' ''1''\<lparr>muteToggle_active := Some ''true''\<rparr>)) ''audioOnly''
        = Some (JSBoolean False)"
proof -
  have a: "audioToggle_active (example_page ''0'' ''1''\<lparr>muteToggle_active := Some ''true'', audioToggle_active := Some ''true''\<rparr>) = Some ''true''"
    by (simp add: example_page_def)
  have b: "audioToggle_active (example_page ''0'' ''1''\<lparr>muteToggle_active := Some ''true''\<rparr>) \<noteq> Some ''true''"
    by (simp add: example_page_def)
  have m: "muteToggle_active (example_page ''0'' ''1''\<lparr>muteToggle_active := Some ''true''\<rparr>) = Some ''true''"
    by simp
  show ?thesis
    using submit_mute_override[of "example_page ''0'' ''1''\<lparr>muteToggle_active := Some ''true'', audioToggle_active := Some ''true''\<rparr>"]
      submit_mute_override[of "example_page ''0'' ''1''\<lparr>muteToggle_active := Some ''true''\<rparr>"]
      a b m
    by simp
qed

text \<open>
  C9.  With a host object the submit handler sends the payload's JSON text to the host
  and then asks it to close; without one it shows the payload in an alert and nothing
  else.  Neither branch can fail, and the page is left as it was.
\<close>

theorem submit_delivery:
  "(tg p \<longrightarrow> snd (dispatch Click_submitButton p) = [SendData (JSON_stringify (payload p) 0), Close])
   \<and> (\<not> tg p \<longrightarrow> snd (dispatch Click_submitButton p) = [Alert ''Payload: '' (JSON_stringify (payload p) 2)])
   \<and> fst (dispatch Click_submitButton p) = p"
  by (simp add: dispatch_def submit_def)

theorem submit_delivery_witness:
  "tg (example_page ''0'' ''1''\<lparr>tg := True\<rparr>)
   \<and> snd (dispatch Click_submitButton (example_page ''0'' ''1''\<lparr>tg := True\<rparr>))
       = [SendData (JSON_text [(''start'', JNumber 0), (''end'', JNumber 1),
                               (''mute'', JBool False), (''audioOnly'', JBool False)] 0), Close]
   \<and> \<not> tg (example_page ''0'' ''1'')
   \<and> snd (dispatch Click_submitButton (example_page ''0'' ''1''))
       = [Alert ''Payload: '' (JSON_text [(''start'', JNumber 0), (''end'', JNumber 1),
                               (''mute'', JBool False), (''audioOnly'', JBool False)] 2)]"
proof -
  have a: "tg (example_page ''0'' ''1''\<lparr>tg := True\<rparr>)" by simp
  have b: "\<not> tg (example_page ''0'' ''1'')" by (simp add: example_page_def)
  have p1: "JSON_stringify (payload (example_page ''0'' ''1''\<lparr>tg := True\<rparr>)) 0
      = JSON_text [(''start'', JNumber 0), (''end'', JNumber 1),
                   (''mute'', JBool False), (''audioOnly'', JBool False)] 0"
    by code_simp
  have p2: "JSON_stringify (payload (example_page ''0'' ''1'')) 2
      = JSON_text [(''start'', JNumber 0), (''end'', JNumber 1),
                   (''mute'', JBool False), (''audioOnly'', JBool False)] 2"
    by code_simp
  show ?thesis
    using submit_delivery[of "example_page ''0'' ''1''\<lparr>tg := True\<rparr>"]
      submit_delivery[of "example_page ''0'' ''1''"] a b p1 p2
    by simp
qed

text \<open>
  C10.  Any number of clicks on the preview button changes the class list of that button
  and nothing else: the payload and what the submit handler sends out are the same before
  and after, a preview click sends nothing out itself, and the payload always has the
  four members start, end, mute and audioOnly, in this order.
\<close>

theorem preview_leaves_payload:
  "payload (((\<lambda>q. fst (dispatch Click_previewButton q)) ^^ n) p) = payload p
   \<and> snd (dispatch Click_submitButton (((\<lambda>q. fst (dispatch Click_previewButton q)) ^^ n) p))
       = snd (dispatch Click_submitButton p)
   \<and> snd (dispatch Click_previewButton p) = []
   \<and> (\<exists>c. ((\<lambda>q. fst (dispatch Click_previewButton q)) ^^ n) p = p\<lparr>previewButton_classList := c\<rparr>)
   \<and> map fst (payload p) = [''start'', ''end'', ''mute'', ''audioOnly'']"
proof -
  obtain c where c: "((\<lambda>q. fst (dispatch Click_previewButton q)) ^^ n) p = p\<lparr>previewButton_classList := c\<rparr>"
    using preview_clicks by blast
  have "snd (dispatch Click_submitButton (p\<lparr>previewButton_classList := c\<rparr>)) = snd (dispatch Click_submitButton p)"
    by (simp add: dispatch_def submit_classList)
  moreover have "snd (dispatch Click_previewButton p) = []"
    by (simp add: dispatch_def)
  moreover have "\<exists>c. ((\<lambda>q. fst (dispatch Click_previewButton q)) ^^ n) p = p\<lparr>previewButton_classList := c\<rparr>"
    by (rule preview_clicks)
  ultimately show ?thesis
    by (simp only: c payload_classList payload_keys)
qed

section \<open>The claims about the launcher\<close>




text \<open>
  C7.  The claim asks that without a token the script reports the skip and reaches the
  final \<open>wait\<close> with api and worker started.  With \<open>PYTHONPATH\<close> unset, uvicorn found and no
  token, the script stops on its fifth line, where it expands \<open>$PYTHONPATH\<close> under
  \<open>set -u\<close>: one message on standard error, status 1, nothing started and no skip
  reported.  The same environment with \<open>PYTHONPATH\<close> set starts api and worker and
  reports the skip.
\<close>

theorem launcher_stops_on_unset_PYTHONPATH:
  "uvicorn_found (example_env None\<lparr>PYTHONPATH := None\<rparr>)
   \<and> TELEGRAM_BOT_TOKEN (example_env None\<lparr>PYTHONPATH := None\<rparr>) = None
   \<and> launcher (example_env None\<lparr>PYTHONPATH := None\<rparr>) = [Stderr Unbound_variable, Exit 1]
   \<and> started (launcher (example_env None\<lparr>PYTHONPATH := None\<rparr>)) = []
   \<and> started (launcher (example_env None)) = [Api, Worker]
   \<and> Stdout Bot_skipped \<in> set (launcher (example_env None))
   \<and> started (launcher (example_env (Some ''123:abc''))) = [Api, Worker, Bot]"
  by (simp add: launcher_def startup_def example_env_def param_default_def test_n_def
      exit_status_def signal_number_def started_def cleanup_run)

text \<open>
  C8.  When uvicorn is not found, the run consists of one message on standard error and
  the exit with status 1; no process is started.
\<close>

theorem missing_uvicorn_fails_fast:
  assumes "\<not> uvicorn_found e"
  shows "spawned (launcher e) = [] \<and> started (launcher e) = []
         \<and> (\<exists>m. launcher e = [Stderr m, Exit 1])
         \<and> (\<forall>pp. PYTHONPATH e = Some pp \<longrightarrow> launcher e = [Stderr Uvicorn_not_found, Exit 1])"
  using assms
  by (cases "PYTHONPATH e")
     (simp_all add: launcher_def startup_def spawned_def started_def)

theorem missing_uvicorn_fails_fast_witness:
  "\<not> uvicorn_found (example_env None\<lparr>uvicorn_found := False\<rparr>)
   \<and> launcher (example_env None\<lparr>uvicorn_found := False\<rparr>) = [Stderr Uvicorn_not_found, Exit 1]
   \<and> spawned (launcher (example_env None\<lparr>uvicorn_found := False\<rparr>)) = []
   \<and> started (launcher (example_env None\<lparr>uvicorn_found := False\<rparr>)) = []"
proof -
  have h: "\<not> uvicorn_found (example_env None\<lparr>uvicorn_found := False\<rparr>)" by simp
  have p: "PYTHONPATH (example_env None\<lparr>uvicorn_found := False\<rparr>) = Some []"
    by (simp add: example_env_def)
  show ?thesis
    using missing_uvicorn_fails_fast[OF h] h p by (simp add: spawned_def started_def)
qed

end
